theory Spec2Isabelle
  imports Complex_Main "HOL-Library.Multiset" "HOL-Library.Char_ord" "HOL-Library.List_Lexorder"
    "HOL-Library.Log_Nat"
begin

section \<open>Data model\<close>

text \<open>
  The row type of the dashboard, \<^verbatim>\<open>interface Feedback\<close> of the admin panel. The six
  criterion scores are JavaScript numbers that hold integers, so they are integers here.
  Sums of them are exact in a double. A quotient by six is compared with an integer or
  rounded at a half, both of which are doubles, so its nearest double is on the same side
  of them as the exact quotient, and the quotient is the exact rational here; so is an
  average, whose double is the nearest one. The one place where the rounding of a double
  decides a result, the percentage of recurring customers, rounds as the doubles do. The
  comment is nullable: the form sends \<^verbatim>\<open>ratings.comment || null\<close>.
\<close>

record Feedback =
  id_fb :: string
  created_at :: string
  nome :: string
  cpf :: string
  telefone :: string
  instagram :: string
  qualidade_comida :: int
  atendimento :: int
  tempo_espera :: int
  higiene_limpeza :: int
  custo_beneficio :: int
  ambiente_conforto :: int
  comentario :: "string option"

text \<open>
  The accumulator object of the \<^verbatim>\<open>reduce\<close> in \<^verbatim>\<open>calculateAverages\<close>.
\<close>

record Totals =
  qualidade_comida_t :: int
  atendimento_t :: int
  tempo_espera_t :: int
  higiene_limpeza_t :: int
  custo_beneficio_t :: int
  ambiente_conforto_t :: int

text \<open>
  \<^verbatim>\<open>Math.round\<close>: the nearest integer, a half rounded towards plus infinity.
\<close>

definition Math_round :: "rat \<Rightarrow> int" where
  "Math_round x = \<lfloor>x + 1 / 2\<rfloor>"

text \<open>
  The sum of the six scores of a record, as each per-record mean of the source writes it.
\<close>

definition score_sum :: "Feedback \<Rightarrow> int" where
  "score_sum feedback =
     qualidade_comida feedback + atendimento feedback + tempo_espera feedback +
     higiene_limpeza feedback + custo_beneficio feedback + ambiente_conforto feedback"

text \<open>
  The per-record mean \<^verbatim>\<open>avgRating = (... + ...) / 6\<close> of the list view, not rounded.
\<close>

definition avgRating :: "Feedback \<Rightarrow> rat" where
  "avgRating feedback = of_int (score_sum feedback) / 6"

text \<open>
  The validity of the data model: each of the six scores is in 1..5.
\<close>

definition valid_scores :: "Feedback \<Rightarrow> bool" where
  "valid_scores f \<longleftrightarrow>
     1 \<le> qualidade_comida f \<and> qualidade_comida f \<le> 5 \<and>
     1 \<le> atendimento f \<and> atendimento f \<le> 5 \<and>
     1 \<le> tempo_espera f \<and> tempo_espera f \<le> 5 \<and>
     1 \<le> higiene_limpeza f \<and> higiene_limpeza f \<le> 5 \<and>
     1 \<le> custo_beneficio f \<and> custo_beneficio f \<le> 5 \<and>
     1 \<le> ambiente_conforto f \<and> ambiente_conforto f \<le> 5"

section \<open>Aggregation: the statistics of the dashboard\<close>

text \<open>
  The step of the \<^verbatim>\<open>reduce\<close>, and the object it starts from.
\<close>

definition add_totals :: "Totals \<Rightarrow> Feedback \<Rightarrow> Totals" where
  "add_totals acc feedback =
     \<lparr> qualidade_comida_t = qualidade_comida_t acc + qualidade_comida feedback,
       atendimento_t = atendimento_t acc + atendimento feedback,
       tempo_espera_t = tempo_espera_t acc + tempo_espera feedback,
       higiene_limpeza_t = higiene_limpeza_t acc + higiene_limpeza feedback,
       custo_beneficio_t = custo_beneficio_t acc + custo_beneficio feedback,
       ambiente_conforto_t = ambiente_conforto_t acc + ambiente_conforto feedback \<rparr>"

definition zero_totals :: Totals where
  "zero_totals =
     \<lparr> qualidade_comida_t = 0, atendimento_t = 0, tempo_espera_t = 0,
       higiene_limpeza_t = 0, custo_beneficio_t = 0, ambiente_conforto_t = 0 \<rparr>"

text \<open>
  \<^verbatim>\<open>Object.entries(totals)\<close>: the six keys in the order the literal declares them.
\<close>

definition Object_entries :: "Totals \<Rightarrow> (string \<times> int) list" where
  "Object_entries t =
     [(''qualidade_comida'', qualidade_comida_t t),
      (''atendimento'', atendimento_t t),
      (''tempo_espera'', tempo_espera_t t),
      (''higiene_limpeza'', higiene_limpeza_t t),
      (''custo_beneficio'', custo_beneficio_t t),
      (''ambiente_conforto'', ambiente_conforto_t t)]"

text \<open>
  \<^verbatim>\<open>calculateAverages\<close>: the empty object for an empty list, otherwise the object of
  the six totals, each divided by the number of records. An object is the list of its
  entries; a key that is absent reads as \<^verbatim>\<open>undefined\<close> (\<open>map_of\<close> gives \<open>None\<close>).
\<close>

definition calculateAverages :: "Feedback list \<Rightarrow> (string \<times> rat) list" where
  "calculateAverages feedbacks =
     (if length feedbacks = 0 then []
      else let totals = foldl add_totals zero_totals feedbacks
           in map (\<lambda>(key, val). (key, of_int val / of_nat (length feedbacks)))
                (Object_entries totals))"

text \<open>
  The \<^verbatim>\<open>overallAverage\<close> of the render: the mean of \<^verbatim>\<open>Object.values(averages)\<close>,
  and 0 when there are none.
\<close>

definition overallAverage :: "(string \<times> rat) list \<Rightarrow> rat" where
  "overallAverage averages =
     (let vals = map snd averages
      in if length vals \<noteq> 0 then foldl (\<lambda>sum avg. sum + avg) 0 vals / of_nat (length vals)
         else 0)"

text \<open>
  \<^verbatim>\<open>getRatingDistribution\<close>: five entries \<open>(rating, count)\<close>; each record adds one
  to the entry of its rounded mean when that is in 1..5, and to none otherwise.
\<close>

definition distribution_step :: "(int \<times> nat) list \<Rightarrow> Feedback \<Rightarrow> (int \<times> nat) list" where
  "distribution_step distribution feedback =
     (let avgR = Math_round (of_int (score_sum feedback) / 6)
      in if avgR \<ge> 1 \<and> avgR \<le> 5
         then distribution[nat (avgR - 1) :=
                (fst (distribution ! nat (avgR - 1)), snd (distribution ! nat (avgR - 1)) + 1)]
         else distribution)"

definition getRatingDistribution :: "Feedback list \<Rightarrow> (int \<times> nat) list" where
  "getRatingDistribution feedbacks =
     foldl distribution_step (map (\<lambda>i. (int i + 1, 0)) [0..<5]) feedbacks"

text \<open>
  \<^verbatim>\<open>getRecurrentCustomers\<close> counts in an object that starts as \<^verbatim>\<open>{}\<close>. A value of
  the object is a number or a text. The object is the list of its own entries, keys
  distinct; only their number and their values are read, so the order in which
  JavaScript enumerates them does not matter. Besides its own entries the object has the
  properties that every object inherits, which \<^verbatim>\<open>acc[k]\<close> reads when \<open>k\<close> is not a
  key of its own: eleven functions, and the accessor \<^verbatim>\<open>__proto__\<close>, whose value is an
  object.
\<close>

datatype js_value = Num nat | Text

definition inherited_names :: "string list" where
  "inherited_names =
     [''constructor'', ''hasOwnProperty'', ''isPrototypeOf'', ''propertyIsEnumerable'',
      ''toLocaleString'', ''toString'', ''valueOf'', ''__defineGetter__'', ''__defineSetter__'',
      ''__lookupGetter__'', ''__lookupSetter__'']"

text \<open>
  \<^verbatim>\<open>acc[k] = v\<close> replaces the value of a key that is present and adds the key otherwise.
\<close>

fun obj_set :: "(string \<times> 'a) list \<Rightarrow> string \<Rightarrow> 'a \<Rightarrow> (string \<times> 'a) list" where
  "obj_set [] k v = [(k, v)]"
| "obj_set ((k', v') # kvs) k v = (if k' = k then (k, v) # kvs else (k', v') # obj_set kvs k v)"

text \<open>
  The new value \<^verbatim>\<open>(acc[k] || 0) + 1\<close> of a key, from the value the object has for it
  (\<open>None\<close>: no entry of its own). A count becomes the next count. An inherited function
  or object is truthy and its sum with 1 is a text; a text is truthy and its sum with 1
  is a text again. Assigning a text to \<^verbatim>\<open>__proto__\<close> changes nothing, so that cpf never
  becomes a key.
\<close>

definition next_count :: "string \<Rightarrow> js_value option \<Rightarrow> js_value option" where
  "next_count k v =
     (case v of
        Some (Num c) \<Rightarrow> Some (Num (c + 1))
      | Some Text \<Rightarrow> Some Text
      | None \<Rightarrow>
          if k = ''__proto__'' then None
          else if k \<in> set inherited_names then Some Text
          else Some (Num 1))"

definition count_cpf :: "(string \<times> js_value) list \<Rightarrow> Feedback \<Rightarrow> (string \<times> js_value) list" where
  "count_cpf acc feedback =
     (case next_count (cpf feedback) (map_of acc (cpf feedback)) of
        None \<Rightarrow> acc
      | Some v \<Rightarrow> obj_set acc (cpf feedback) v)"

text \<open>
  The arithmetic of doubles. A double is a multiple of the quantum of its binade, \<open>2\<close> to
  the power \<open>e - 52\<close> when it lies between \<open>2\<close> to the \<open>e\<close> and \<open>2\<close> to the \<open>e + 1\<close>,
  and of \<open>2\<close> to the \<open>- 1074\<close> below the normal range; a quotient or a product is the
  multiple nearest to the exact value, the even one of two that are equally near. The
  number of bits of the value counted in units of \<open>2\<close> to the \<open>- 1074\<close> gives the binade.
  Values beyond the largest double do not occur here.
\<close>

definition round_half_even :: "rat \<Rightarrow> int" where
  "round_half_even y =
     (let f = \<lfloor>y\<rfloor>; d = y - of_int f
      in if d < 1 / 2 then f else if d > 1 / 2 then f + 1 else if even f then f else f + 1)"

definition quantum :: "rat \<Rightarrow> rat" where
  "quantum x = 2 powi (max (bitlen \<lfloor>x * 2 ^ 1074\<rfloor>) 53 - 1127)"

definition to_double :: "rat \<Rightarrow> rat" where
  "to_double x = of_int (round_half_even (x / quantum x)) * quantum x"

text \<open>
  \<^verbatim>\<open>Math.round((recurrentCount / n) * 100) || 0\<close>: the double of the quotient, the
  double of its product with 100, rounded by \<^verbatim>\<open>Math.round\<close>, which is exact. Without
  a key no key recurs and the quotient is 0/0, which is \<^verbatim>\<open>NaN\<close>, and \<^verbatim>\<open>|| 0\<close> turns
  \<^verbatim>\<open>NaN\<close> and 0 into 0. The two counts are below \<open>2\<close> to the 53 and so are doubles
  themselves.
\<close>

definition percentage :: "nat \<Rightarrow> nat \<Rightarrow> int" where
  "percentage recurrentCount n =
     (if n = 0 then 0
      else let r = Math_round (to_double (to_double (of_nat recurrentCount / of_nat n) * 100))
           in if r = 0 then 0 else r)"

text \<open>
  \<^verbatim>\<open>getRecurrentCustomers\<close>. The test \<^verbatim>\<open>count > 1\<close> fails for a text, which is not
  a number.
\<close>

definition getRecurrentCustomers :: "Feedback list \<Rightarrow> int" where
  "getRecurrentCustomers feedbacks =
     (let cpfCounts = foldl count_cpf [] feedbacks;
          recurrentCount =
            length (filter (\<lambda>count. case count of Num c \<Rightarrow> c > 1 | Text \<Rightarrow> False)
                      (map snd cpfCounts))
      in percentage recurrentCount (length (map fst cpfCounts)))"

section \<open>The list view: filter and sort\<close>

text \<open>
  The state \<^verbatim>\<open>sortBy\<close>. The state \<^verbatim>\<open>minRatingFilter\<close> is \<open>None\<close> for the item
  \<^verbatim>\<open>"all"\<close> and \<open>Some k\<close> for the item whose value \<^verbatim>\<open>Number\<close> reads as \<open>k\<close>.
\<close>

datatype sort_by = recent | best | worst

text \<open>
  \<^verbatim>\<open>Array.prototype.sort\<close> with a comparison function is a stable sort: an element
  goes before another when the function is negative for the pair, and elements for which
  it is zero keep their order. For a consistent comparison function that is the result
  of the stable insertion sort below.
\<close>

fun insort_cmp :: "('a \<Rightarrow> 'a \<Rightarrow> rat) \<Rightarrow> 'a \<Rightarrow> 'a list \<Rightarrow> 'a list" where
  "insort_cmp compareFn x [] = [x]"
| "insort_cmp compareFn x (y # ys) =
     (if compareFn x y \<le> 0 then x # y # ys else y # insort_cmp compareFn x ys)"

definition Array_sort :: "('a \<Rightarrow> 'a \<Rightarrow> rat) \<Rightarrow> 'a list \<Rightarrow> 'a list" where
  "Array_sort compareFn xs = foldr (insort_cmp compareFn) xs []"

text \<open>
  The comparison function of \<^verbatim>\<open>filteredAndSortedFeedbacks\<close>. \<open>getTime\<close> stands for
  \<^verbatim>\<open>new Date(s).getTime()\<close>, the parsing of a timestamp, which is the platform's.
\<close>

definition compareFn :: "(string \<Rightarrow> int) \<Rightarrow> sort_by \<Rightarrow> Feedback \<Rightarrow> Feedback \<Rightarrow> rat" where
  "compareFn getTime sortBy a b =
     (if sortBy = recent then of_int (getTime (created_at b) - getTime (created_at a))
      else let avgA = of_int (score_sum a) / 6; avgB = of_int (score_sum b) / 6
           in if sortBy = best then avgB - avgA else avgA - avgB)"

text \<open>
  \<^verbatim>\<open>filteredAndSortedFeedbacks\<close>. The result is the pair of the projection and of the
  array of the state after the call: \<^verbatim>\<open>sort\<close> works in place, and without a filter
  the array it sorts is the state's own.
\<close>

definition filteredAndSortedFeedbacks ::
  "(string \<Rightarrow> int) \<Rightarrow> Feedback list \<Rightarrow> int option \<Rightarrow> sort_by \<Rightarrow> Feedback list \<times> Feedback list" where
  "filteredAndSortedFeedbacks getTime feedbacks minRatingFilter sortBy =
     (let filtered =
            (case minRatingFilter of
               None \<Rightarrow> feedbacks
             | Some minRating \<Rightarrow>
                 filter (\<lambda>feedback. of_int (score_sum feedback) / 6 \<ge> (of_int minRating :: rat)) feedbacks);
          sorted = Array_sort (compareFn getTime sortBy) filtered
      in (sorted, case minRatingFilter of None \<Rightarrow> sorted | Some minRating \<Rightarrow> feedbacks))"

section \<open>The CSV export\<close>

text \<open>
  The characters that matter to the export.
\<close>

definition dquote :: char where "dquote = CHR 0x22"

definition comma :: char where "comma = CHR '',''"

definition newline :: char where "newline = CHR 0x0A"

definition carriage_return :: char where "carriage_return = CHR 0x0D"

text \<open>
  \<^verbatim>\<open>Array.prototype.join\<close>.
\<close>

fun join :: "string \<Rightarrow> string list \<Rightarrow> string" where
  "join sep [] = []"
| "join sep [x] = x"
| "join sep (x # y # ys) = x @ sep @ join sep (y # ys)"

text \<open>
  \<^verbatim>\<open>s.replace(/"/g, '""')\<close>: every double quote is doubled.
\<close>

definition replace_quotes :: "string \<Rightarrow> string" where
  "replace_quotes s = concat (map (\<lambda>c. if c = dquote then [dquote, dquote] else [c]) s)"

text \<open>
  The decimal text of an integer, which is what \<^verbatim>\<open>join\<close> writes for a score.
\<close>

fun digits :: "nat \<Rightarrow> string" where
  "digits n =
     (if n < 10 then [''0123456789'' ! n]
      else digits (n div 10) @ [''0123456789'' ! (n mod 10)])"

definition String_int :: "int \<Rightarrow> string" where
  "String_int i = (if i < 0 then CHR ''-'' # digits (nat (- i)) else digits (nat i))"

text \<open>
  The header row; the two accented letters are their two bytes in UTF-8.
\<close>

definition headers :: "string list" where
  "headers = [''Nome'', ''CPF'', ''Telefone'', ''Instagram'', ''Data'', ''Qualidade Comida'',
     ''Atendimento'', ''Tempo Espera'', ''Higiene'',
     ''Custo-Benef'' @ [CHR 0xC3, CHR 0xAD] @ ''cio'', ''Ambiente'',
     ''Coment'' @ [CHR 0xC3, CHR 0xA1] @ ''rio'']"

text \<open>
  The array that \<^verbatim>\<open>exportToCSV\<close> builds for one record, before it is joined with
  commas. \<open>toLocaleDateString\<close> stands for the platform's formatting of the timestamp
  as a date of the locale pt-BR. Only the last cell, the comment, is put in quotes; a
  null or empty comment gives the two quotes alone.
\<close>

definition csv_cells :: "(string \<Rightarrow> string) \<Rightarrow> Feedback \<Rightarrow> string list" where
  "csv_cells toLocaleDateString feedback =
     [nome feedback, cpf feedback, telefone feedback, instagram feedback,
      toLocaleDateString (created_at feedback),
      String_int (qualidade_comida feedback), String_int (atendimento feedback),
      String_int (tempo_espera feedback), String_int (higiene_limpeza feedback),
      String_int (custo_beneficio feedback), String_int (ambiente_conforto feedback),
      [dquote] @ (case comentario feedback of None \<Rightarrow> [] | Some s \<Rightarrow> replace_quotes s) @ [dquote]]"

text \<open>
  The text \<^verbatim>\<open>csvContent\<close> that \<^verbatim>\<open>exportToCSV\<close> hands to the download.
\<close>

definition exportToCSV :: "(string \<Rightarrow> string) \<Rightarrow> Feedback list \<Rightarrow> string" where
  "exportToCSV toLocaleDateString feedbacks =
     join [newline]
       (join [comma] headers #
        map (\<lambda>feedback. join [comma] (csv_cells toLocaleDateString feedback)) feedbacks)"

section \<open>The live feed\<close>

text \<open>
  The handler of the subscription \<^verbatim>\<open>feedbacks-changes\<close>: the state update
  \<^verbatim>\<open>setFeedbacks(prev => [payload.new, ...prev])\<close>.
\<close>

definition onInsert :: "Feedback \<Rightarrow> Feedback list \<Rightarrow> Feedback list" where
  "onInsert payload_new prev = payload_new # prev"

section \<open>The customer form\<close>

text \<open>
  The two states of \<^verbatim>\<open>CustomerForm\<close>. The fields \<^verbatim>\<open>cpf\<close> and \<^verbatim>\<open>instagram\<close>
  of the customer carry a suffix, as the rows have fields of these names.
\<close>

record CustomerData =
  name :: string
  cpf_c :: string
  phone :: string
  instagram_c :: string

record RatingData =
  foodQuality :: int
  service :: int
  waitTime :: int
  cleanliness :: int
  valueForMoney :: int
  ambiance :: int
  comment :: string

text \<open>
  The keys of the six criteria and of the four customer fields.
\<close>

datatype criterion = FoodQuality | Service | WaitTime | Cleanliness | ValueForMoney | Ambiance

datatype customer_field = Name | Cpf | Phone | Instagram

text \<open>
  The list \<^verbatim>\<open>ratingCriteria\<close>, and \<^verbatim>\<open>ratings[criteria.key]\<close>.
\<close>

definition ratingCriteria :: "criterion list" where
  "ratingCriteria = [FoodQuality, Service, WaitTime, Cleanliness, ValueForMoney, Ambiance]"

fun rating_of :: "RatingData \<Rightarrow> criterion \<Rightarrow> int" where
  "rating_of r FoodQuality = foodQuality r"
| "rating_of r Service = service r"
| "rating_of r WaitTime = waitTime r"
| "rating_of r Cleanliness = cleanliness r"
| "rating_of r ValueForMoney = valueForMoney r"
| "rating_of r Ambiance = ambiance r"

text \<open>
  The change handlers. \<^verbatim>\<open>handleRatingChange\<close> is called with a criterion and a number
  by the star widget, and with the comment and a string by the text area.
\<close>

fun handleCustomerChange :: "CustomerData \<Rightarrow> customer_field \<Rightarrow> string \<Rightarrow> CustomerData" where
  "handleCustomerChange prev Name v = prev\<lparr>name := v\<rparr>"
| "handleCustomerChange prev Cpf v = prev\<lparr>cpf_c := v\<rparr>"
| "handleCustomerChange prev Phone v = prev\<lparr>phone := v\<rparr>"
| "handleCustomerChange prev Instagram v = prev\<lparr>instagram_c := v\<rparr>"

fun handleRatingChange :: "RatingData \<Rightarrow> criterion \<Rightarrow> int \<Rightarrow> RatingData" where
  "handleRatingChange prev FoodQuality v = prev\<lparr>foodQuality := v\<rparr>"
| "handleRatingChange prev Service v = prev\<lparr>service := v\<rparr>"
| "handleRatingChange prev WaitTime v = prev\<lparr>waitTime := v\<rparr>"
| "handleRatingChange prev Cleanliness v = prev\<lparr>cleanliness := v\<rparr>"
| "handleRatingChange prev ValueForMoney v = prev\<lparr>valueForMoney := v\<rparr>"
| "handleRatingChange prev Ambiance v = prev\<lparr>ambiance := v\<rparr>"

definition handleCommentChange :: "RatingData \<Rightarrow> string \<Rightarrow> RatingData" where
  "handleCommentChange prev v = prev\<lparr>comment := v\<rparr>"

text \<open>
  The buttons of \<^verbatim>\<open>StarRating\<close>: a click on one of them calls \<^verbatim>\<open>onChange\<close> with
  its number, and the widget calls \<^verbatim>\<open>onChange\<close> nowhere else.
\<close>

definition StarRating_stars :: "int list" where
  "StarRating_stars = [1, 2, 3, 4, 5]"

text \<open>
  The initial states.
\<close>

definition initial_customer :: CustomerData where
  "initial_customer = \<lparr> name = [], cpf_c = [], phone = [], instagram_c = [] \<rparr>"

definition initial_ratings :: RatingData where
  "initial_ratings = \<lparr> foodQuality = 0, service = 0, waitTime = 0, cleanliness = 0,
     valueForMoney = 0, ambiance = 0, comment = [] \<rparr>"

text \<open>
  \<^verbatim>\<open>validateForm\<close>. An empty string is the only string that \<^verbatim>\<open>!s\<close> holds of. The
  test \<^verbatim>\<open>typeof ... === 'number'\<close> holds of the six criteria.
\<close>

definition validateForm :: "CustomerData \<Rightarrow> RatingData \<Rightarrow> bool" where
  "validateForm customer ratings =
     (if name customer = [] \<or> cpf_c customer = [] \<or> phone customer = [] \<or> instagram_c customer = []
      then False
      else let missingRatings = filter (\<lambda>criteria. rating_of ratings criteria = 0) ratingCriteria
           in if length missingRatings > 0 then False else True)"

text \<open>
  \<^verbatim>\<open>handleSubmit\<close>: nothing is sent when the validation fails; otherwise the row is
  sent to the table, which gives it its id and its timestamp.
\<close>

definition handleSubmit :: "string \<Rightarrow> string \<Rightarrow> CustomerData \<Rightarrow> RatingData \<Rightarrow> Feedback option" where
  "handleSubmit new_id now customer ratings =
     (if \<not> validateForm customer ratings then None
      else Some \<lparr> id_fb = new_id, created_at = now,
                  nome = name customer, cpf = cpf_c customer, telefone = phone customer,
                  instagram = instagram_c customer,
                  qualidade_comida = foodQuality ratings, atendimento = service ratings,
                  tempo_espera = waitTime ratings, higiene_limpeza = cleanliness ratings,
                  custo_beneficio = valueForMoney ratings, ambiente_conforto = ambiance ratings,
                  comentario = (if comment ratings = [] then None else Some (comment ratings)) \<rparr>)"

text \<open>
  The states the form can be in: the initial one, and the ones its inputs lead to.
\<close>

inductive form_state :: "CustomerData \<Rightarrow> RatingData \<Rightarrow> bool" where
  initial: "form_state initial_customer initial_ratings"
| customer_input: "form_state c r \<Longrightarrow> form_state (handleCustomerChange c field v) r"
| star_click: "form_state c r \<Longrightarrow> star \<in> set StarRating_stars \<Longrightarrow>
               form_state c (handleRatingChange r key star)"
| comment_input: "form_state c r \<Longrightarrow> form_state c (handleCommentChange r v)"

section \<open>Notions used to state the properties\<close>

text \<open>
  The number of records of a list that carry a given cpf.
\<close>

definition cpf_occurrences :: "Feedback list \<Rightarrow> string \<Rightarrow> nat" where
  "cpf_occurrences fs c = length (filter (\<lambda>f. cpf f = c) fs)"

text \<open>
  A cpf that is not the name of an inherited property; the cpf values that occur in more
  than one record; a number that lies halfway between two integers.
\<close>

definition own_key :: "string \<Rightarrow> bool" where
  "own_key k \<longleftrightarrow> k \<noteq> ''__proto__'' \<and> k \<notin> set inherited_names"

definition recurring :: "Feedback list \<Rightarrow> string set" where
  "recurring fs = {c \<in> cpf ` set fs. cpf_occurrences fs c > 1}"


text \<open>
  The number of records whose rounded mean is \<open>k\<close>.
\<close>

definition bucket_count :: "int \<Rightarrow> Feedback list \<Rightarrow> nat" where
  "bucket_count k fs = length (filter (\<lambda>f. Math_round (avgRating f) = k) fs)"

text \<open>
  The sum of one criterion over the records, divided by the number of records.
\<close>

definition criterion_mean :: "(Feedback \<Rightarrow> int) \<Rightarrow> Feedback list \<Rightarrow> rat" where
  "criterion_mean c fs = of_int (sum_list (map c fs)) / of_nat (length fs)"

text \<open>
  The key that a sort order compares, smaller first.
\<close>

definition sort_rank :: "(string \<Rightarrow> int) \<Rightarrow> sort_by \<Rightarrow> Feedback \<Rightarrow> rat" where
  "sort_rank getTime sortBy f =
     (case sortBy of
        recent \<Rightarrow> - of_int (getTime (created_at f))
      | best \<Rightarrow> - avgRating f
      | worst \<Rightarrow> avgRating f)"

text \<open>
  The records that a filter lets through, in the order of the list.
\<close>

definition kept :: "Feedback list \<Rightarrow> int option \<Rightarrow> Feedback list" where
  "kept fs minRatingFilter =
     (case minRatingFilter of None \<Rightarrow> fs | Some k \<Rightarrow> filter (\<lambda>f. avgRating f \<ge> of_int k) fs)"

text \<open>
  Reading delimited text back, by the usual rules: fields are separated by commas and
  records by line feeds; a field that starts with a double quote runs to the next double
  quote that is not doubled, may hold commas and line feeds, and a doubled double quote
  in it stands for one; a double quote elsewhere is malformed. The current field and the
  fields and records read so far are kept in reverse.
\<close>

datatype csv_state = Plain | Quoted | QuoteSeen

fun csv_scan ::
  "csv_state \<Rightarrow> string \<Rightarrow> string list \<Rightarrow> string list list \<Rightarrow> string \<Rightarrow> string list list option" where
  "csv_scan st cur row rows [] =
     (if st = Quoted then None else Some (rev (rev (rev cur # row) # rows)))"
| "csv_scan Plain cur row rows (c # cs) =
     (if c = comma then csv_scan Plain [] (rev cur # row) rows cs
      else if c = newline then csv_scan Plain [] [] (rev (rev cur # row) # rows) cs
      else if c = dquote then (if cur = [] then csv_scan Quoted [] row rows cs else None)
      else csv_scan Plain (c # cur) row rows cs)"
| "csv_scan Quoted cur row rows (c # cs) =
     (if c = dquote then csv_scan QuoteSeen cur row rows cs
      else csv_scan Quoted (c # cur) row rows cs)"
| "csv_scan QuoteSeen cur row rows (c # cs) =
     (if c = dquote then csv_scan Quoted (c # cur) row rows cs
      else if c = comma then csv_scan Plain [] (rev cur # row) rows cs
      else if c = newline then csv_scan Plain [] [] (rev (rev cur # row) # rows) cs
      else None)"

definition csv_parse :: "string \<Rightarrow> string list list option" where
  "csv_parse content = csv_scan Plain [] [] [] content"

text \<open>
  A text that can stand in a field without quotes: no comma, no line break, no double
  quote. A row is safe when the five cells that are free text are.
\<close>

definition unquoted_safe :: "string \<Rightarrow> bool" where
  "unquoted_safe s \<longleftrightarrow> list_all (\<lambda>c. c \<noteq> comma \<and> c \<noteq> newline \<and> c \<noteq> dquote \<and> c \<noteq> carriage_return) s"

definition row_safe :: "(string \<Rightarrow> string) \<Rightarrow> Feedback \<Rightarrow> bool" where
  "row_safe toLocaleDateString f \<longleftrightarrow>
     unquoted_safe (nome f) \<and> unquoted_safe (cpf f) \<and> unquoted_safe (telefone f) \<and>
     unquoted_safe (instagram f) \<and> unquoted_safe (toLocaleDateString (created_at f))"

text \<open>
  The twelve values that a row of the export stands for.
\<close>

definition csv_values :: "(string \<Rightarrow> string) \<Rightarrow> Feedback \<Rightarrow> string list" where
  "csv_values toLocaleDateString f =
     [nome f, cpf f, telefone f, instagram f, toLocaleDateString (created_at f),
      String_int (qualidade_comida f), String_int (atendimento f), String_int (tempo_espera f),
      String_int (higiene_limpeza f), String_int (custo_beneficio f), String_int (ambiente_conforto f),
      (case comentario f of None \<Rightarrow> [] | Some s \<Rightarrow> s)]"

text \<open>
  The four customer fields are filled in; a property holds of each of the six ratings.
\<close>

definition required_fields :: "CustomerData \<Rightarrow> bool" where
  "required_fields c \<longleftrightarrow> name c \<noteq> [] \<and> cpf_c c \<noteq> [] \<and> phone c \<noteq> [] \<and> instagram_c c \<noteq> []"

definition all_ratings :: "(int \<Rightarrow> bool) \<Rightarrow> RatingData \<Rightarrow> bool" where
  "all_ratings P r \<longleftrightarrow>
     P (foodQuality r) \<and> P (service r) \<and> P (waitTime r) \<and> P (cleanliness r) \<and>
     P (valueForMoney r) \<and> P (ambiance r)"

section \<open>Sample data\<close>

text \<open>
  A record whose six scores are all \<open>s\<close>.
\<close>

definition uniform :: "string \<Rightarrow> string \<Rightarrow> string \<Rightarrow> int \<Rightarrow> Feedback" where
  "uniform i t c s =
     \<lparr> id_fb = i, created_at = t, nome = ''Ana'', cpf = c, telefone = ''11999990000'',
       instagram = ''ana'', qualidade_comida = s, atendimento = s, tempo_espera = s,
       higiene_limpeza = s, custo_beneficio = s, ambiente_conforto = s, comentario = None \<rparr>"


text \<open>
  Three timestamps with their times and dates.
\<close>

definition sample_time :: "string \<Rightarrow> int" where
  "sample_time s =
     (if s = ''2024-01-01T10:00:00Z'' then 1704103200000
      else if s = ''2024-01-02T10:00:00Z'' then 1704189600000
      else if s = ''2024-01-03T10:00:00Z'' then 1704276000000
      else 0)"

definition sample_date :: "string \<Rightarrow> string" where
  "sample_date s =
     (if s = ''2024-01-01T10:00:00Z'' then ''01/01/2024''
      else if s = ''2024-01-02T10:00:00Z'' then ''02/01/2024''
      else ''Invalid Date'')"

text \<open>
  A filled-in customer, and ratings that are all \<open>s\<close>.
\<close>

definition filled_customer :: CustomerData where
  "filled_customer = \<lparr> name = ''Ana'', cpf_c = ''111'', phone = ''11999990000'', instagram_c = ''ana'' \<rparr>"

definition all_rated :: "int \<Rightarrow> RatingData" where
  "all_rated s = \<lparr> foodQuality = s, service = s, waitTime = s, cleanliness = s,
     valueForMoney = s, ambiance = s, comment = [] \<rparr>"

section \<open>Rounding\<close>

text \<open>
  Rounding a quotient of integers is an integer division.
\<close>

lemma Math_round_sixth: "Math_round (of_int s / 6) = (s + 3) div 6"
proof -
  have "(of_int s / 6 + 1 / 2 :: rat) = of_int (s + 3) / of_int 6"
    by (simp add: field_simps)
  then show ?thesis
    unfolding Math_round_def by (simp only: floor_divide_of_int_eq)
qed

lemma Math_round_of_int: "Math_round (of_int n) = n"
  unfolding Math_round_def by linarith

lemma Math_round_fraction:
  assumes "0 < b"
  shows "Math_round (of_int a / of_int b) = (2 * a + b) div (2 * b)"
proof -
  have "(of_int a / of_int b + 1 / 2 :: rat) = of_int (2 * a + b) / of_int (2 * b)"
    using assms by (simp add: field_simps)
  then show ?thesis
    unfolding Math_round_def by (simp only: floor_divide_of_int_eq)
qed

lemma Math_round_numeral [simp]: "Math_round (numeral n) = numeral n"
  using Math_round_of_int [of "numeral n"] by simp

lemma Math_round_0 [simp]: "Math_round 0 = 0"
  using Math_round_of_int [of 0] by simp

lemma Math_round_1 [simp]: "Math_round 1 = 1"
  using Math_round_of_int [of 1] by simp

lemma Math_round_numeral_fraction [simp]:
  "Math_round (numeral a / numeral b) = (2 * numeral a + numeral b) div (2 * numeral b)"
  using Math_round_fraction [of "numeral b" "numeral a"] by simp

section \<open>The error of a double, and the percentage\<close>



lemma to_double_0 [simp]: "to_double 0 = 0"
  by (simp add: to_double_def round_half_even_def)







lemma percentage_0 [simp]: "percentage 0 n = 0"
  by (simp add: percentage_def)











section \<open>The averages\<close>

text \<open>
  The \<^verbatim>\<open>reduce\<close> computes the six sums, so the averages are the six means.
\<close>

lemma foldl_add_totals:
  "foldl add_totals acc fs =
     \<lparr> qualidade_comida_t = qualidade_comida_t acc + sum_list (map qualidade_comida fs),
       atendimento_t = atendimento_t acc + sum_list (map atendimento fs),
       tempo_espera_t = tempo_espera_t acc + sum_list (map tempo_espera fs),
       higiene_limpeza_t = higiene_limpeza_t acc + sum_list (map higiene_limpeza fs),
       custo_beneficio_t = custo_beneficio_t acc + sum_list (map custo_beneficio fs),
       ambiente_conforto_t = ambiente_conforto_t acc + sum_list (map ambiente_conforto fs) \<rparr>"
  by (induction fs arbitrary: acc) (simp_all add: add_totals_def add.assoc)

lemma calculateAverages_eq:
  "calculateAverages fs =
     (if fs = [] then []
      else [(''qualidade_comida'', of_int (sum_list (map qualidade_comida fs)) / of_nat (length fs)),
            (''atendimento'', of_int (sum_list (map atendimento fs)) / of_nat (length fs)),
            (''tempo_espera'', of_int (sum_list (map tempo_espera fs)) / of_nat (length fs)),
            (''higiene_limpeza'', of_int (sum_list (map higiene_limpeza fs)) / of_nat (length fs)),
            (''custo_beneficio'', of_int (sum_list (map custo_beneficio fs)) / of_nat (length fs)),
            (''ambiente_conforto'', of_int (sum_list (map ambiente_conforto fs)) / of_nat (length fs))])"
  by (simp add: calculateAverages_def foldl_add_totals Object_entries_def zero_totals_def)

lemma calculateAverages_mean:
  "calculateAverages fs =
     (if fs = [] then []
      else [(''qualidade_comida'', criterion_mean qualidade_comida fs),
            (''atendimento'', criterion_mean atendimento fs),
            (''tempo_espera'', criterion_mean tempo_espera fs),
            (''higiene_limpeza'', criterion_mean higiene_limpeza fs),
            (''custo_beneficio'', criterion_mean custo_beneficio fs),
            (''ambiente_conforto'', criterion_mean ambiente_conforto fs)])"
  by (simp only: calculateAverages_eq criterion_mean_def)

lemma sum_list_bounds:
  "\<forall>f\<in>set fs. 1 \<le> c f \<and> c f \<le> (5::int) \<Longrightarrow>
   int (length fs) \<le> sum_list (map c fs) \<and> sum_list (map c fs) \<le> 5 * int (length fs)"
  by (induction fs) auto

lemma criterion_mean_range:
  assumes "fs \<noteq> []" and "\<forall>f\<in>set fs. 1 \<le> c f \<and> c f \<le> (5::int)"
  shows "1 \<le> criterion_mean c fs \<and> criterion_mean c fs \<le> 5"
proof -
  have n: "(0::rat) < of_nat (length fs)" using assms(1) by simp
  from sum_list_bounds[OF assms(2)]
  have "(of_nat (length fs) :: rat) \<le> of_int (sum_list (map c fs))"
    and "(of_int (sum_list (map c fs)) :: rat) \<le> 5 * of_nat (length fs)"
    by (metis of_int_le_iff of_int_of_nat_eq, metis of_int_le_iff of_int_mult of_int_numeral of_int_of_nat_eq)
  with n show ?thesis
    unfolding criterion_mean_def by (simp add: pos_le_divide_eq pos_divide_le_eq)
qed

text \<open>
  Claim C2. For a list of records that is not empty and whose six scores are each in
  1..5, every entry of \<^verbatim>\<open>calculateAverages\<close> is the sum of its criterion over the
  records divided by the number of records, the six entries come in the order of the
  criteria, each lies between 1 and 5, and the overall average of the dashboard is the
  mean of the six entries. For the empty list the object has no entry: reading a
  criterion gives \<^verbatim>\<open>undefined\<close>.
\<close>

theorem averages_correct:
  "(fs \<noteq> [] \<and> (\<forall>f\<in>set fs. valid_scores f) \<longrightarrow>
      map_of (calculateAverages fs) ''qualidade_comida'' = Some (criterion_mean qualidade_comida fs) \<and>
      map_of (calculateAverages fs) ''atendimento'' = Some (criterion_mean atendimento fs) \<and>
      map_of (calculateAverages fs) ''tempo_espera'' = Some (criterion_mean tempo_espera fs) \<and>
      map_of (calculateAverages fs) ''higiene_limpeza'' = Some (criterion_mean higiene_limpeza fs) \<and>
      map_of (calculateAverages fs) ''custo_beneficio'' = Some (criterion_mean custo_beneficio fs) \<and>
      map_of (calculateAverages fs) ''ambiente_conforto'' = Some (criterion_mean ambiente_conforto fs) \<and>
      map fst (calculateAverages fs) =
        [''qualidade_comida'', ''atendimento'', ''tempo_espera'', ''higiene_limpeza'',
         ''custo_beneficio'', ''ambiente_conforto''] \<and>
      (\<forall>v\<in>snd ` set (calculateAverages fs). 1 \<le> v \<and> v \<le> 5) \<and>
      overallAverage (calculateAverages fs) =
        (criterion_mean qualidade_comida fs + criterion_mean atendimento fs +
         criterion_mean tempo_espera fs + criterion_mean higiene_limpeza fs +
         criterion_mean custo_beneficio fs + criterion_mean ambiente_conforto fs) / 6) \<and>
   map_of (calculateAverages []) k = None"
proof (intro conjI impI)
  assume a: "fs \<noteq> [] \<and> (\<forall>f\<in>set fs. valid_scores f)"
  then have ne: "fs \<noteq> []" and v: "\<forall>f\<in>set fs. valid_scores f" by simp_all
  have eq: "calculateAverages fs =
      [(''qualidade_comida'', criterion_mean qualidade_comida fs),
       (''atendimento'', criterion_mean atendimento fs),
       (''tempo_espera'', criterion_mean tempo_espera fs),
       (''higiene_limpeza'', criterion_mean higiene_limpeza fs),
       (''custo_beneficio'', criterion_mean custo_beneficio fs),
       (''ambiente_conforto'', criterion_mean ambiente_conforto fs)]"
    using ne by (simp only: calculateAverages_mean if_False)
  show "map_of (calculateAverages fs) ''qualidade_comida'' = Some (criterion_mean qualidade_comida fs)"
    by (simp add: eq)
  show "map_of (calculateAverages fs) ''atendimento'' = Some (criterion_mean atendimento fs)"
    by (simp add: eq)
  show "map_of (calculateAverages fs) ''tempo_espera'' = Some (criterion_mean tempo_espera fs)"
    by (simp add: eq)
  show "map_of (calculateAverages fs) ''higiene_limpeza'' = Some (criterion_mean higiene_limpeza fs)"
    by (simp add: eq)
  show "map_of (calculateAverages fs) ''custo_beneficio'' = Some (criterion_mean custo_beneficio fs)"
    by (simp add: eq)
  show "map_of (calculateAverages fs) ''ambiente_conforto'' = Some (criterion_mean ambiente_conforto fs)"
    by (simp add: eq)
  show "map fst (calculateAverages fs) =
        [''qualidade_comida'', ''atendimento'', ''tempo_espera'', ''higiene_limpeza'',
         ''custo_beneficio'', ''ambiente_conforto'']"
    by (simp add: eq)
  have r: "\<And>c. \<forall>f\<in>set fs. 1 \<le> c f \<and> c f \<le> (5::int) \<Longrightarrow>
             1 \<le> criterion_mean c fs \<and> criterion_mean c fs \<le> 5"
    using ne by (rule criterion_mean_range)
  show "\<forall>v\<in>snd ` set (calculateAverages fs). 1 \<le> v \<and> v \<le> 5"
    using v by (simp add: eq valid_scores_def r)
  show "overallAverage (calculateAverages fs) =
        (criterion_mean qualidade_comida fs + criterion_mean atendimento fs +
         criterion_mean tempo_espera fs + criterion_mean higiene_limpeza fs +
         criterion_mean custo_beneficio fs + criterion_mean ambiente_conforto fs) / 6"
    by (simp add: eq overallAverage_def)
next
  show "map_of (calculateAverages []) k = None"
    by (simp add: calculateAverages_def)
qed

text \<open>
  Two records, all fives and all twos: every average is 7/2, and so is the overall one.
\<close>

theorem averages_correct_witness:
  "[uniform ''a'' ''t1'' ''111'' 5, uniform ''b'' ''t2'' ''222'' 2] \<noteq> [] \<and>
   valid_scores (uniform ''a'' ''t1'' ''111'' 5) \<and> valid_scores (uniform ''b'' ''t2'' ''222'' 2) \<and>
   map_of (calculateAverages [uniform ''a'' ''t1'' ''111'' 5, uniform ''b'' ''t2'' ''222'' 2])
     ''atendimento'' = Some (7 / 2) \<and>
   overallAverage (calculateAverages [uniform ''a'' ''t1'' ''111'' 5, uniform ''b'' ''t2'' ''222'' 2])
     = 7 / 2"
  using averages_correct [of "[uniform ''a'' ''t1'' ''111'' 5, uniform ''b'' ''t2'' ''222'' 2]"]
  by (simp add: valid_scores_def uniform_def criterion_mean_def)

section \<open>The histogram\<close>

text \<open>
  What one record and what a list of records add to the five counts.
\<close>

lemma distribution_step_eq:
  "distribution_step [(1, c1), (2, c2), (3, c3), (4, c4), (5, c5)] f =
     [(1, c1 + bucket_count 1 [f]), (2, c2 + bucket_count 2 [f]), (3, c3 + bucket_count 3 [f]),
      (4, c4 + bucket_count 4 [f]), (5, c5 + bucket_count 5 [f])]"
proof -
  define r where "r = Math_round (of_int (score_sum f) / 6)"
  consider "r < 1 \<or> r > 5" | "r = 1" | "r = 2" | "r = 3" | "r = 4" | "r = 5"
    by linarith
  then show ?thesis
    by cases (auto simp: distribution_step_def bucket_count_def avgRating_def Let_def r_def[symmetric])
qed

lemma bucket_count_Cons: "bucket_count k (f # fs) = bucket_count k [f] + bucket_count k fs"
  by (simp add: bucket_count_def)

lemma foldl_distribution_step:
  "foldl distribution_step [(1, c1), (2, c2), (3, c3), (4, c4), (5, c5)] fs =
     [(1, c1 + bucket_count 1 fs), (2, c2 + bucket_count 2 fs), (3, c3 + bucket_count 3 fs),
      (4, c4 + bucket_count 4 fs), (5, c5 + bucket_count 5 fs)]"
proof (induction fs arbitrary: c1 c2 c3 c4 c5)
  case Nil
  show ?case by (simp add: bucket_count_def)
next
  case (Cons f fs)
  show ?case
    by (simp only: foldl_Cons distribution_step_eq Cons.IH bucket_count_Cons[of _ f fs] add.assoc)
qed

lemma initial_distribution: "map (\<lambda>i. (int i + 1, 0::nat)) [0..<5] = [(1, 0), (2, 0), (3, 0), (4, 0), (5, 0)]"
  by (simp add: upt_rec)

lemma getRatingDistribution_eq:
  "getRatingDistribution fs =
     [(1, bucket_count 1 fs), (2, bucket_count 2 fs), (3, bucket_count 3 fs),
      (4, bucket_count 4 fs), (5, bucket_count 5 fs)]"
  unfolding getRatingDistribution_def initial_distribution
  by (simp add: foldl_distribution_step)

lemma valid_round_range:
  assumes "valid_scores f"
  shows "1 \<le> Math_round (avgRating f) \<and> Math_round (avgRating f) \<le> 5"
proof -
  have "6 \<le> score_sum f" "score_sum f \<le> 30"
    using assms by (simp_all add: valid_scores_def score_sum_def)
  then show ?thesis
    unfolding avgRating_def Math_round_sixth by presburger
qed

lemma bucket_total:
  "\<forall>f\<in>set fs. valid_scores f \<Longrightarrow>
   bucket_count 1 fs + bucket_count 2 fs + bucket_count 3 fs + bucket_count 4 fs + bucket_count 5 fs
     = length fs"
proof (induction fs)
  case Nil
  show ?case by (simp add: bucket_count_def)
next
  case (Cons f fs)
  have r: "1 \<le> Math_round (avgRating f) \<and> Math_round (avgRating f) \<le> 5"
    using Cons.prems by (simp add: valid_round_range)
  have one: "bucket_count 1 [f] + bucket_count 2 [f] + bucket_count 3 [f] + bucket_count 4 [f] + bucket_count 5 [f] = 1"
  proof -
    consider "Math_round (avgRating f) = 1" | "Math_round (avgRating f) = 2" | "Math_round (avgRating f) = 3"
      | "Math_round (avgRating f) = 4" | "Math_round (avgRating f) = 5"
      using r by linarith
    then show ?thesis by cases (simp_all add: bucket_count_def)
  qed
  have "\<forall>f\<in>set fs. valid_scores f" using Cons.prems by simp
  from Cons.IH[OF this] one show ?case
    by (simp add: bucket_count_Cons[of _ f fs])
qed

text \<open>
  Claim C3, as the code has it. For every list of records and each k of 1..5, the count
  of bucket k is the number of records whose mean of the six scores, rounded to the
  nearest integer with a half rounded up, is k. So a record whose rounded mean is in 1..5
  adds one to the bucket of that number and to no other, and a record whose rounded mean
  is outside 1..5 does not pass the range guard and is counted in no bucket. The three
  records with constant scores 5, 1 and 3 give the counts 1, 0, 1, 0, 1.
\<close>

theorem histogram_buckets:
  "getRatingDistribution fs =
     map (\<lambda>k. (k, length (filter (\<lambda>f. Math_round (avgRating f) = k) fs))) [1, 2, 3, 4, 5] \<and>
   getRatingDistribution (fs @ [f]) =
     (if 1 \<le> Math_round (avgRating f) \<and> Math_round (avgRating f) \<le> 5
      then map (\<lambda>(k, n). (k, if k = Math_round (avgRating f) then n + 1 else n)) (getRatingDistribution fs)
      else getRatingDistribution fs) \<and>
   getRatingDistribution [uniform ''a'' ''t1'' ''111'' 5, uniform ''b'' ''t2'' ''222'' 1,
        uniform ''c'' ''t3'' ''333'' 3] = [(1, 1), (2, 0), (3, 1), (4, 0), (5, 1)]"
proof (intro conjI)
  show "getRatingDistribution fs =
     map (\<lambda>k. (k, length (filter (\<lambda>f. Math_round (avgRating f) = k) fs))) [1, 2, 3, 4, 5]"
    by (simp add: getRatingDistribution_eq bucket_count_def)
  show "getRatingDistribution (fs @ [f]) =
     (if 1 \<le> Math_round (avgRating f) \<and> Math_round (avgRating f) \<le> 5
      then map (\<lambda>(k, n). (k, if k = Math_round (avgRating f) then n + 1 else n)) (getRatingDistribution fs)
      else getRatingDistribution fs)"
    by (auto simp: getRatingDistribution_eq bucket_count_def)
  show "getRatingDistribution [uniform ''a'' ''t1'' ''111'' 5, uniform ''b'' ''t2'' ''222'' 1,
        uniform ''c'' ''t3'' ''333'' 3] = [(1, 1), (2, 0), (3, 1), (4, 0), (5, 1)]"
    by (simp add: getRatingDistribution_eq bucket_count_def avgRating_def score_sum_def uniform_def)
qed

text \<open>
  As stated of every list of records, C3 fails: a record with six scores of 6 has the
  rounded mean 6, and no bucket counts it.
\<close>

theorem histogram_out_of_range_counterexample:
  "getRatingDistribution [uniform ''a'' ''t1'' ''111'' 6] = [(1, 0), (2, 0), (3, 0), (4, 0), (5, 0)]"
  by (simp add: getRatingDistribution_eq bucket_count_def avgRating_def score_sum_def uniform_def)

text \<open>
  Claim C10. For a list of records whose six scores are each in 1..5, the rounded mean of
  every record is in 1..5, so the range guard lets every record through (the step adds
  one to the entry of its rounded mean), and the five counts add up to the number of
  records.
\<close>

theorem histogram_total:
  assumes "\<forall>f\<in>set fs. valid_scores f"
  shows "(\<forall>f\<in>set fs. 1 \<le> Math_round (avgRating f) \<and> Math_round (avgRating f) \<le> 5) \<and>
         (\<forall>f\<in>set fs. \<forall>d. distribution_step d f =
             d[nat (Math_round (avgRating f) - 1) :=
                (fst (d ! nat (Math_round (avgRating f) - 1)),
                 snd (d ! nat (Math_round (avgRating f) - 1)) + 1)]) \<and>
         sum_list (map snd (getRatingDistribution fs)) = length fs"
proof (intro conjI ballI allI)
  fix f assume "f \<in> set fs"
  then have v: "valid_scores f" using assms by simp
  from valid_round_range[OF v]
  show "1 \<le> Math_round (avgRating f)" and "Math_round (avgRating f) \<le> 5" by simp_all
  fix d
  from valid_round_range[OF v]
  show "distribution_step d f =
             d[nat (Math_round (avgRating f) - 1) :=
                (fst (d ! nat (Math_round (avgRating f) - 1)),
                 snd (d ! nat (Math_round (avgRating f) - 1)) + 1)]"
    by (simp add: distribution_step_def avgRating_def Let_def)
next
  show "sum_list (map snd (getRatingDistribution fs)) = length fs"
    using bucket_total[OF assms] by (simp add: getRatingDistribution_eq)
qed

text \<open>
  Two valid records: the counts add up to 2.
\<close>

theorem histogram_total_witness:
  "valid_scores (uniform ''a'' ''t1'' ''111'' 5) \<and> valid_scores (uniform ''b'' ''t2'' ''222'' 2) \<and>
   sum_list (map snd (getRatingDistribution [uniform ''a'' ''t1'' ''111'' 5, uniform ''b'' ''t2'' ''222'' 2]))
     = length [uniform ''a'' ''t1'' ''111'' 5, uniform ''b'' ''t2'' ''222'' 2]"
  using histogram_total [of "[uniform ''a'' ''t1'' ''111'' 5, uniform ''b'' ''t2'' ''222'' 2]"]
  by (simp add: valid_scores_def uniform_def)

section \<open>The recurring customers\<close>

text \<open>
  The object of the counts: a cpf that is the name of no inherited property is a key with
  the number of its records as value, a cpf that is the name of an inherited function is
  a key with a text as value, and \<^verbatim>\<open>__proto__\<close> is no key.
\<close>

lemma map_of_obj_set: "map_of (obj_set al k v) = (map_of al)(k \<mapsto> v)"
  by (induction al k v rule: obj_set.induct) auto

lemma keys_obj_set: "fst ` set (obj_set al k v) = insert k (fst ` set al)"
  by (induction al k v rule: obj_set.induct) auto

lemma distinct_obj_set: "distinct (map fst al) \<Longrightarrow> distinct (map fst (obj_set al k v))"
  by (induction al k v rule: obj_set.induct) (auto simp: keys_obj_set)

lemma next_count_Some [simp]: "next_count k (Some v) \<noteq> None"
  by (cases v) (simp_all add: next_count_def)

lemma map_of_count_cpf:
  "map_of (count_cpf acc f) = (map_of acc)(cpf f := next_count (cpf f) (map_of acc (cpf f)))"
proof (cases "next_count (cpf f) (map_of acc (cpf f))")
  case None
  then have "map_of acc (cpf f) = None"
    by (cases "map_of acc (cpf f)") simp_all
  with None show ?thesis by (simp add: count_cpf_def fun_upd_idem)
next
  case (Some v)
  then show ?thesis by (simp add: count_cpf_def map_of_obj_set)
qed

lemma distinct_count_cpf: "distinct (map fst acc) \<Longrightarrow> distinct (map fst (count_cpf acc f))"
  by (simp add: count_cpf_def distinct_obj_set split: option.splits)

lemma distinct_cpfCounts: "distinct (map fst acc) \<Longrightarrow> distinct (map fst (foldl count_cpf acc fs))"
  by (induction fs arbitrary: acc) (simp_all add: distinct_count_cpf)

lemma cpf_occurrences_Cons:
  "cpf_occurrences (f # fs) k = (if cpf f = k then 1 else 0) + cpf_occurrences fs k"
  by (simp add: cpf_occurrences_def)

lemma map_of_cpfCounts:
  "map_of (foldl count_cpf acc fs) k = (next_count k ^^ cpf_occurrences fs k) (map_of acc k)"
proof (induction fs arbitrary: acc)
  case Nil
  show ?case by (simp add: cpf_occurrences_def)
next
  case (Cons f fs)
  have "map_of (foldl count_cpf acc (f # fs)) k = map_of (foldl count_cpf (count_cpf acc f) fs) k"
    by simp
  also have "\<dots> = (next_count k ^^ cpf_occurrences fs k) (map_of (count_cpf acc f) k)"
    by (rule Cons.IH)
  also have "\<dots> = (next_count k ^^ cpf_occurrences (f # fs) k) (map_of acc k)"
    by (simp add: map_of_count_cpf cpf_occurrences_Cons funpow_swap1)
  finally show ?case .
qed

lemma next_count_funpow:
  "(next_count k ^^ n) None =
     (if n = 0 \<or> k = ''__proto__'' then None
      else if k \<in> set inherited_names then Some Text
      else Some (Num n))"
proof (induction n)
  case 0
  show ?case by simp
next
  case (Suc n)
  have "(next_count k ^^ Suc n) None = next_count k ((next_count k ^^ n) None)" by simp
  also have "\<dots> = next_count k
      (if n = 0 \<or> k = ''__proto__'' then None
       else if k \<in> set inherited_names then Some Text
       else Some (Num n))"
    by (simp only: Suc.IH)
  also have "\<dots> =
      (if Suc n = 0 \<or> k = ''__proto__'' then None
       else if k \<in> set inherited_names then Some Text
       else Some (Num (Suc n)))"
    by (cases "n = 0") (simp_all add: next_count_def)
  finally show ?case .
qed

lemma map_of_cpfCounts_empty:
  "map_of (foldl count_cpf [] fs) k =
     (if cpf_occurrences fs k = 0 \<or> k = ''__proto__'' then None
      else if k \<in> set inherited_names then Some Text
      else Some (Num (cpf_occurrences fs k)))"
  by (simp only: map_of_cpfCounts map_of.simps next_count_funpow)

lemma cpf_occurrences_0_iff: "cpf_occurrences fs k = 0 \<longleftrightarrow> k \<notin> cpf ` set fs"
  by (auto simp: cpf_occurrences_def filter_empty_conv)

lemma keys_cpfCounts:
  "set (map fst (foldl count_cpf [] fs)) = {k \<in> cpf ` set fs. k \<noteq> ''__proto__''}"
proof -
  have "set (map fst (foldl count_cpf [] fs)) = dom (map_of (foldl count_cpf [] fs))"
    by (simp add: dom_map_of_conv_image_fst)
  also have "\<dots> = {k \<in> cpf ` set fs. k \<noteq> ''__proto__''}"
    unfolding dom_def by (auto simp: map_of_cpfCounts_empty cpf_occurrences_0_iff)
  finally show ?thesis .
qed

lemma length_cpfCounts:
  "length (foldl count_cpf [] fs) = card {k \<in> cpf ` set fs. k \<noteq> ''__proto__''}"
proof -
  have "distinct (map fst (foldl count_cpf [] fs))"
    by (rule distinct_cpfCounts) simp
  from distinct_card[OF this] show ?thesis
    by (simp only: keys_cpfCounts length_map)
qed

lemma length_filter_values:
  assumes "distinct (map fst al)"
  shows "length (filter P (map snd al)) = card {k. \<exists>v. map_of al k = Some v \<and> P v}"
proof -
  have d: "distinct (map fst (filter (\<lambda>kv. P (snd kv)) al))"
    using assms by (rule distinct_map_filter)
  have "length (filter P (map snd al)) = length (map fst (filter (\<lambda>kv. P (snd kv)) al))"
    by (simp add: filter_map comp_def)
  also have "\<dots> = card (set (map fst (filter (\<lambda>kv. P (snd kv)) al)))"
    using distinct_card[OF d] by simp
  also have "set (map fst (filter (\<lambda>kv. P (snd kv)) al)) = {k. \<exists>v. map_of al k = Some v \<and> P v}"
    using assms by (auto simp: map_of_eq_Some_iff image_iff)
  finally show ?thesis .
qed

lemma recurrent_cpfCounts:
  "length (filter (\<lambda>count. case count of Num c \<Rightarrow> c > 1 | Text \<Rightarrow> False)
             (map snd (foldl count_cpf [] fs)))
     = card {c \<in> recurring fs. own_key c}"
proof -
  have d: "distinct (map fst (foldl count_cpf [] fs))"
    by (rule distinct_cpfCounts) simp
  have "{k. \<exists>v. map_of (foldl count_cpf [] fs) k = Some v \<and> (case v of Num c \<Rightarrow> c > 1 | Text \<Rightarrow> False)}
          = {c \<in> recurring fs. own_key c}"
    by (auto simp: map_of_cpfCounts_empty cpf_occurrences_0_iff recurring_def own_key_def
          split: if_splits js_value.splits)
  with length_filter_values[OF d, of "\<lambda>count. case count of Num c \<Rightarrow> c > 1 | Text \<Rightarrow> False"]
  show ?thesis by simp
qed

lemma getRecurrentCustomers_eq:
  "getRecurrentCustomers fs =
     percentage (card {c \<in> recurring fs. own_key c}) (card {k \<in> cpf ` set fs. k \<noteq> ''__proto__''})"
  unfolding getRecurrentCustomers_def Let_def
  by (simp only: recurrent_cpfCounts length_cpfCounts length_map)

















section \<open>The order of the records does not matter\<close>

text \<open>
  Sums, counts and the set of the cpf values depend on the multiset of the records only.
\<close>

lemma sum_list_map_mset: "mset xs = mset ys \<Longrightarrow> sum_list (map c xs) = (sum_list (map c ys) :: int)"
  by (metis mset_map sum_mset_sum_list)

lemma length_filter_mset: "mset xs = mset ys \<Longrightarrow> length (filter P xs) = length (filter P ys)"
  by (metis mset_filter size_mset)

lemma calculateAverages_mset:
  assumes "mset xs = mset ys"
  shows "calculateAverages xs = calculateAverages ys"
proof -
  have "length xs = length ys" using assms by (rule mset_eq_length)
  moreover have "xs = [] \<longleftrightarrow> ys = []" using assms by (metis mset_zero_iff)
  ultimately show ?thesis
    unfolding calculateAverages_eq
    by (simp add: sum_list_map_mset[OF assms])
qed

lemma bucket_count_mset: "mset xs = mset ys \<Longrightarrow> bucket_count k xs = bucket_count k ys"
  unfolding bucket_count_def by (rule length_filter_mset)

lemma getRatingDistribution_mset:
  assumes "mset xs = mset ys"
  shows "getRatingDistribution xs = getRatingDistribution ys"
  unfolding getRatingDistribution_eq
  by (simp only: bucket_count_mset[OF assms])

lemma getRecurrentCustomers_mset:
  assumes "mset xs = mset ys"
  shows "getRecurrentCustomers xs = getRecurrentCustomers ys"
proof -
  have s: "set xs = set ys" using assms by (rule mset_eq_setD)
  have o: "cpf_occurrences xs = cpf_occurrences ys"
    by (rule ext) (simp add: cpf_occurrences_def length_filter_mset[OF assms])
  show ?thesis
    unfolding getRecurrentCustomers_eq recurring_def by (simp only: s o)
qed

text \<open>
  Claim C1. Two lists that hold the same records, in any two orders, give the same six
  per-criterion averages, the same overall average, the same five histogram counts and
  the same ratio of recurring customers.
\<close>

theorem aggregation_order_invariant:
  assumes "mset xs = mset ys"
  shows "calculateAverages xs = calculateAverages ys \<and>
         overallAverage (calculateAverages xs) = overallAverage (calculateAverages ys) \<and>
         getRatingDistribution xs = getRatingDistribution ys \<and>
         getRecurrentCustomers xs = getRecurrentCustomers ys"
proof -
  have "calculateAverages xs = calculateAverages ys"
    using assms by (rule calculateAverages_mset)
  moreover have "getRatingDistribution xs = getRatingDistribution ys"
    using assms by (rule getRatingDistribution_mset)
  moreover have "getRecurrentCustomers xs = getRecurrentCustomers ys"
    using assms by (rule getRecurrentCustomers_mset)
  ultimately show ?thesis by simp
qed

text \<open>
  Three records and a rotation of them.
\<close>

theorem aggregation_order_invariant_witness:
  "mset [uniform ''a'' ''t1'' ''111'' 5, uniform ''b'' ''t2'' ''111'' 2, uniform ''c'' ''t3'' ''333'' 4]
     = mset [uniform ''c'' ''t3'' ''333'' 4, uniform ''a'' ''t1'' ''111'' 5, uniform ''b'' ''t2'' ''111'' 2] \<and>
   getRatingDistribution [uniform ''a'' ''t1'' ''111'' 5, uniform ''b'' ''t2'' ''111'' 2, uniform ''c'' ''t3'' ''333'' 4]
     = getRatingDistribution [uniform ''c'' ''t3'' ''333'' 4, uniform ''a'' ''t1'' ''111'' 5, uniform ''b'' ''t2'' ''111'' 2] \<and>
   getRecurrentCustomers [uniform ''a'' ''t1'' ''111'' 5, uniform ''b'' ''t2'' ''111'' 2, uniform ''c'' ''t3'' ''333'' 4]
     = getRecurrentCustomers [uniform ''c'' ''t3'' ''333'' 4, uniform ''a'' ''t1'' ''111'' 5, uniform ''b'' ''t2'' ''111'' 2] \<and>
   calculateAverages [uniform ''a'' ''t1'' ''111'' 5, uniform ''b'' ''t2'' ''111'' 2, uniform ''c'' ''t3'' ''333'' 4]
     = calculateAverages [uniform ''c'' ''t3'' ''333'' 4, uniform ''a'' ''t1'' ''111'' 5, uniform ''b'' ''t2'' ''111'' 2]"
proof -
  have h: "mset [uniform ''a'' ''t1'' ''111'' 5, uniform ''b'' ''t2'' ''111'' 2, uniform ''c'' ''t3'' ''333'' 4]
     = mset [uniform ''c'' ''t3'' ''333'' 4, uniform ''a'' ''t1'' ''111'' 5, uniform ''b'' ''t2'' ''111'' 2]"
    by (simp add: add.commute)
  from aggregation_order_invariant [OF h] h show ?thesis by simp
qed

section \<open>Filtering and sorting\<close>

text \<open>
  The comparison function orders by the rank, so the sort is the stable sort by rank.
\<close>

lemma compareFn_rank:
  "compareFn getTime sortBy a b \<le> 0 \<longleftrightarrow> sort_rank getTime sortBy a \<le> sort_rank getTime sortBy b"
  by (cases sortBy) (auto simp: compareFn_def sort_rank_def avgRating_def Let_def)

lemma insort_cmp_key:
  assumes "\<And>a b. cmp a b \<le> 0 \<longleftrightarrow> key a \<le> key b"
  shows "insort_cmp cmp x ys = insort_key key x ys"
  by (induction ys) (simp_all add: assms)

lemma Array_sort_key:
  assumes "\<And>a b. cmp a b \<le> 0 \<longleftrightarrow> key a \<le> (key b :: rat)"
  shows "Array_sort cmp xs = sort_key key xs"
proof -
  have "insort_cmp cmp = insort_key key"
    by (intro ext) (rule insort_cmp_key[OF assms])
  then show ?thesis by (simp add: Array_sort_def sort_key_def)
qed

lemma projection_eq:
  "fst (filteredAndSortedFeedbacks getTime fs flt sb) = sort_key (sort_rank getTime sb) (kept fs flt)"
proof -
  have "Array_sort (compareFn getTime sb) (kept fs flt) = sort_key (sort_rank getTime sb) (kept fs flt)"
    by (rule Array_sort_key) (rule compareFn_rank)
  then show ?thesis
    by (cases flt) (simp_all add: filteredAndSortedFeedbacks_def kept_def avgRating_def Let_def)
qed

lemma sorted_projection:
  "sorted (map (sort_rank getTime sb) (fst (filteredAndSortedFeedbacks getTime fs flt sb)))"
  by (simp only: projection_eq sorted_sort_key)

lemma sorted_map_wrt: "sorted (map f xs) = sorted_wrt (\<lambda>a b. f a \<le> f b) xs"
  by (simp add: sorted_wrt_map)

text \<open>
  Claim C5, as the code has it. For every list of records and every filter, the
  projection holds the records that the filter keeps, each as often as the list does, in
  descending order of the creation time for \<^verbatim>\<open>recent\<close>, in descending order of the
  mean of the six raw scores for \<^verbatim>\<open>best\<close>, and in ascending order of that mean for
  \<^verbatim>\<open>worst\<close>. The comparison function has no second key: records with the same time
  (for \<^verbatim>\<open>recent\<close>) or the same mean (for \<^verbatim>\<open>best\<close> and \<^verbatim>\<open>worst\<close>) stay in the
  order they have in the list.
\<close>

theorem projection_sorted_stable:
  "sorted_wrt (\<lambda>a b. getTime (created_at a) \<ge> getTime (created_at b))
     (fst (filteredAndSortedFeedbacks getTime fs flt recent)) \<and>
   sorted_wrt (\<lambda>a b. avgRating a \<ge> avgRating b)
     (fst (filteredAndSortedFeedbacks getTime fs flt best)) \<and>
   sorted_wrt (\<lambda>a b. avgRating a \<le> avgRating b)
     (fst (filteredAndSortedFeedbacks getTime fs flt worst)) \<and>
   mset (fst (filteredAndSortedFeedbacks getTime fs flt sb)) = mset (kept fs flt) \<and>
   filter (\<lambda>f. getTime (created_at f) = t) (fst (filteredAndSortedFeedbacks getTime fs flt recent))
     = filter (\<lambda>f. getTime (created_at f) = t) (kept fs flt) \<and>
   filter (\<lambda>f. avgRating f = v) (fst (filteredAndSortedFeedbacks getTime fs flt best))
     = filter (\<lambda>f. avgRating f = v) (kept fs flt) \<and>
   filter (\<lambda>f. avgRating f = v) (fst (filteredAndSortedFeedbacks getTime fs flt worst))
     = filter (\<lambda>f. avgRating f = v) (kept fs flt)"
proof (intro conjI)
  show "sorted_wrt (\<lambda>a b. getTime (created_at a) \<ge> getTime (created_at b))
     (fst (filteredAndSortedFeedbacks getTime fs flt recent))"
    using sorted_projection[of getTime recent fs flt]
    by (simp add: sorted_map_wrt sort_rank_def)
  show "sorted_wrt (\<lambda>a b. avgRating a \<ge> avgRating b)
     (fst (filteredAndSortedFeedbacks getTime fs flt best))"
    using sorted_projection[of getTime best fs flt]
    by (simp add: sorted_map_wrt sort_rank_def)
  show "sorted_wrt (\<lambda>a b. avgRating a \<le> avgRating b)
     (fst (filteredAndSortedFeedbacks getTime fs flt worst))"
    using sorted_projection[of getTime worst fs flt]
    by (simp add: sorted_map_wrt sort_rank_def)
  show "mset (fst (filteredAndSortedFeedbacks getTime fs flt sb)) = mset (kept fs flt)"
    by (simp only: projection_eq mset_sort)
  show "filter (\<lambda>f. getTime (created_at f) = t) (fst (filteredAndSortedFeedbacks getTime fs flt recent))
     = filter (\<lambda>f. getTime (created_at f) = t) (kept fs flt)"
    using sort_key_stable[of "sort_rank getTime recent" "- of_int t" "kept fs flt"]
    by (simp add: projection_eq sort_rank_def)
  show "filter (\<lambda>f. avgRating f = v) (fst (filteredAndSortedFeedbacks getTime fs flt best))
     = filter (\<lambda>f. avgRating f = v) (kept fs flt)"
    using sort_key_stable[of "sort_rank getTime best" "- v" "kept fs flt"]
    by (simp add: projection_eq sort_rank_def)
  show "filter (\<lambda>f. avgRating f = v) (fst (filteredAndSortedFeedbacks getTime fs flt worst))
     = filter (\<lambda>f. avgRating f = v) (kept fs flt)"
    using sort_key_stable[of "sort_rank getTime worst" "v" "kept fs flt"]
    by (simp add: projection_eq sort_rank_def)
qed

text \<open>
  As stated, C5 fails on ties. Two records with the same creation time stay in the order
  of the list under \<^verbatim>\<open>recent\<close>, the smaller id first; two records with the same mean
  stay in the order of the list under \<^verbatim>\<open>best\<close>, the older one first.
\<close>

theorem tie_break_counterexample:
  "fst (filteredAndSortedFeedbacks sample_time
          [uniform ''a'' ''2024-01-01T10:00:00Z'' ''111'' 4, uniform ''b'' ''2024-01-01T10:00:00Z'' ''222'' 4]
          None recent)
     = [uniform ''a'' ''2024-01-01T10:00:00Z'' ''111'' 4, uniform ''b'' ''2024-01-01T10:00:00Z'' ''222'' 4] \<and>
   id_fb (uniform ''a'' ''2024-01-01T10:00:00Z'' ''111'' 4) < id_fb (uniform ''b'' ''2024-01-01T10:00:00Z'' ''222'' 4) \<and>
   fst (filteredAndSortedFeedbacks sample_time
          [uniform ''a'' ''2024-01-01T10:00:00Z'' ''111'' 4, uniform ''b'' ''2024-01-02T10:00:00Z'' ''222'' 4]
          None best)
     = [uniform ''a'' ''2024-01-01T10:00:00Z'' ''111'' 4, uniform ''b'' ''2024-01-02T10:00:00Z'' ''222'' 4] \<and>
   avgRating (uniform ''a'' ''2024-01-01T10:00:00Z'' ''111'' 4) = avgRating (uniform ''b'' ''2024-01-02T10:00:00Z'' ''222'' 4) \<and>
   sample_time (created_at (uniform ''a'' ''2024-01-01T10:00:00Z'' ''111'' 4))
     < sample_time (created_at (uniform ''b'' ''2024-01-02T10:00:00Z'' ''222'' 4))"
  by (simp add: filteredAndSortedFeedbacks_def Array_sort_def compareFn_def uniform_def Let_def
        score_sum_def avgRating_def sample_time_def)

text \<open>
  Claim C6. For every list of records, every sort order and every k (1..5 among them),
  the projection with the minimum rating k holds exactly the records whose mean of the
  six raw scores, not rounded, is at least k, each as often as the list holds it, and no
  other record. When the scores are in 1..5, the minimum rating 5 keeps exactly the
  records whose mean is 5.
\<close>

theorem min_rating_filter:
  "mset (fst (filteredAndSortedFeedbacks getTime fs (Some k) sb))
     = mset (filter (\<lambda>f. avgRating f \<ge> of_int k) fs) \<and>
   set (fst (filteredAndSortedFeedbacks getTime fs (Some k) sb))
     = {f \<in> set fs. avgRating f \<ge> of_int k} \<and>
   ((\<forall>f\<in>set fs. valid_scores f) \<longrightarrow>
      set (fst (filteredAndSortedFeedbacks getTime fs (Some 5) sb)) = {f \<in> set fs. avgRating f = 5})"
proof (intro conjI impI)
  show m: "mset (fst (filteredAndSortedFeedbacks getTime fs (Some k) sb))
     = mset (filter (\<lambda>f. avgRating f \<ge> of_int k) fs)"
    by (simp only: projection_eq mset_sort kept_def option.case)
  show s: "set (fst (filteredAndSortedFeedbacks getTime fs (Some k) sb))
     = {f \<in> set fs. avgRating f \<ge> of_int k}"
    by (simp add: projection_eq kept_def)
  assume v: "\<forall>f\<in>set fs. valid_scores f"
  have "avgRating f \<le> 5" if "f \<in> set fs" for f
  proof -
    have "valid_scores f" using v that by simp
    then have "score_sum f \<le> 30" by (simp add: valid_scores_def score_sum_def)
    then have "(of_int (score_sum f) :: rat) \<le> 30" by (metis of_int_le_iff of_int_numeral)
    then show ?thesis by (simp add: avgRating_def)
  qed
  then have "{f \<in> set fs. avgRating f \<ge> 5} = {f \<in> set fs. avgRating f = 5}"
    by (auto simp: order.antisym)
  then show "set (fst (filteredAndSortedFeedbacks getTime fs (Some 5) sb)) = {f \<in> set fs. avgRating f = 5}"
    by (simp add: projection_eq kept_def)
qed

text \<open>
  Of a record of fives and a record of fours, the minimum rating 5 keeps the first.
\<close>

theorem min_rating_filter_witness:
  "valid_scores (uniform ''a'' ''2024-01-01T10:00:00Z'' ''111'' 5) \<and>
   valid_scores (uniform ''b'' ''2024-01-02T10:00:00Z'' ''222'' 4) \<and>
   set (fst (filteredAndSortedFeedbacks sample_time
          [uniform ''a'' ''2024-01-01T10:00:00Z'' ''111'' 5,
           uniform ''b'' ''2024-01-02T10:00:00Z'' ''222'' 4] (Some 5) best))
     = {uniform ''a'' ''2024-01-01T10:00:00Z'' ''111'' 5}"
  using min_rating_filter [of sample_time
          "[uniform ''a'' ''2024-01-01T10:00:00Z'' ''111'' 5,
            uniform ''b'' ''2024-01-02T10:00:00Z'' ''222'' 4]" 5 best]
  by (auto simp: valid_scores_def uniform_def avgRating_def score_sum_def)

section \<open>The export read back\<close>

text \<open>
  Reading a field without quotes and a field in quotes.
\<close>

lemma scan_plain:
  "unquoted_safe s \<Longrightarrow> csv_scan Plain cur row rows (s @ rest) = csv_scan Plain (rev s @ cur) row rows rest"
  by (induction s arbitrary: cur) (simp_all add: unquoted_safe_def dquote_def comma_def newline_def)

lemma scan_plain_comma:
  "unquoted_safe s \<Longrightarrow>
   csv_scan Plain [] row rows (s @ comma # rest) = csv_scan Plain [] (s # row) rows rest"
  by (simp add: scan_plain)

lemma scan_plain_newline:
  "unquoted_safe s \<Longrightarrow>
   csv_scan Plain [] row rows (s @ newline # rest) = csv_scan Plain [] [] (rev (s # row) # rows) rest"
  by (simp add: scan_plain comma_def newline_def)

lemma scan_plain_end:
  "unquoted_safe s \<Longrightarrow> csv_scan Plain [] row rows s = Some (rev (rev (s # row) # rows))"
  using scan_plain[of s "[]" row rows "[]"] by simp

lemma scan_quoted:
  "csv_scan Quoted cur row rows (replace_quotes s @ rest) = csv_scan Quoted (rev s @ cur) row rows rest"
  by (induction s arbitrary: cur) (simp_all add: replace_quotes_def)

lemma scan_quoted_cell_newline:
  "csv_scan Plain [] row rows (dquote # replace_quotes s @ dquote # newline # rest)
     = csv_scan Plain [] [] (rev (s # row) # rows) rest"
  by (simp add: scan_quoted comma_def newline_def dquote_def)

lemma scan_quoted_cell_end:
  "csv_scan Plain [] row rows (dquote # replace_quotes s @ [dquote]) = Some (rev (rev (s # row) # rows))"
  by (simp add: scan_quoted comma_def newline_def dquote_def)

text \<open>
  The cells of a row and of the header, and the lines of the export.
\<close>

lemma special_chars_distinct [simp]:
  "dquote \<noteq> comma" "comma \<noteq> dquote" "dquote \<noteq> newline" "newline \<noteq> dquote"
  "comma \<noteq> newline" "newline \<noteq> comma"
  by (simp_all add: dquote_def comma_def newline_def)

lemma unquoted_safe_Nil [simp]: "unquoted_safe []"
  by (simp add: unquoted_safe_def)

lemma unquoted_safe_Cons [simp]:
  "unquoted_safe (c # s) \<longleftrightarrow>
     c \<noteq> comma \<and> c \<noteq> newline \<and> c \<noteq> dquote \<and> c \<noteq> carriage_return \<and> unquoted_safe s"
  by (simp add: unquoted_safe_def)

lemma unquoted_safe_append [simp]:
  "unquoted_safe (a @ b) \<longleftrightarrow> unquoted_safe a \<and> unquoted_safe b"
  by (simp add: unquoted_safe_def)

lemma digit_char_safe:
  assumes "d < 10"
  shows "unquoted_safe [''0123456789'' ! d]"
proof -
  from assms consider "d = 0" | "d = 1" | "d = 2" | "d = 3" | "d = 4" | "d = 5" | "d = 6" | "d = 7"
    | "d = 8" | "d = 9" by atomize_elim arith
  then show ?thesis
    by cases (simp_all add: comma_def newline_def dquote_def carriage_return_def)
qed

lemma digits_safe: "unquoted_safe (digits n)"
proof (induction n rule: digits.induct)
  case (1 n)
  show ?case
  proof (cases "n < 10")
    case True
    then show ?thesis by (subst digits.simps) (simp only: if_True digit_char_safe)
  next
    case False
    then have "unquoted_safe (digits (n div 10))" by (rule "1.IH")
    moreover have "unquoted_safe [''0123456789'' ! (n mod 10)]" by (rule digit_char_safe) simp
    ultimately show ?thesis using False
      by (subst digits.simps) (simp only: if_False unquoted_safe_append simp_thms)
  qed
qed

lemma String_int_safe: "unquoted_safe (String_int i)"
proof (cases "i < 0")
  case True
  have "unquoted_safe [CHR ''-'']"
    by (simp add: comma_def newline_def dquote_def carriage_return_def)
  with digits_safe[of "nat (- i)"] have "unquoted_safe ([CHR ''-''] @ digits (nat (- i)))"
    by (simp only: unquoted_safe_append simp_thms)
  then show ?thesis using True by (simp only: String_int_def if_True append_Cons append_Nil)
next
  case False
  then show ?thesis by (simp only: String_int_def if_False digits_safe)
qed

lemma replace_quotes_Nil [simp]: "replace_quotes [] = []"
  by (simp add: replace_quotes_def)

lemma comment_escape:
  "(case c of None \<Rightarrow> [] | Some s \<Rightarrow> replace_quotes s)
     = replace_quotes (case c of None \<Rightarrow> [] | Some s \<Rightarrow> s)"
  by (cases c) simp_all

lemma row_newline:
  assumes "row_safe fmt f"
  shows "csv_scan Plain [] [] rows (join [comma] (csv_cells fmt f) @ newline # rest)
           = csv_scan Plain [] [] (csv_values fmt f # rows) rest"
  using assms
  by (simp add: row_safe_def csv_cells_def csv_values_def scan_plain_comma String_int_safe
        comment_escape scan_quoted_cell_newline del: csv_scan.simps)

lemma row_end:
  assumes "row_safe fmt f"
  shows "csv_scan Plain [] [] rows (join [comma] (csv_cells fmt f)) = Some (rev (csv_values fmt f # rows))"
  using assms
  by (simp add: row_safe_def csv_cells_def csv_values_def scan_plain_comma String_int_safe
        comment_escape scan_quoted_cell_end del: csv_scan.simps)

lemma header_newline:
  "csv_scan Plain [] [] rows (join [comma] headers @ newline # rest)
     = csv_scan Plain [] [] (headers # rows) rest"
  by (simp add: headers_def comma_def newline_def dquote_def)

lemma header_end:
  "csv_scan Plain [] [] rows (join [comma] headers) = Some (rev (headers # rows))"
  by (simp add: headers_def comma_def newline_def dquote_def)

lemma scan_lines:
  assumes "\<And>l vs rows rest. (l, vs) \<in> set lvs \<Longrightarrow>
             csv_scan Plain [] [] rows (l @ newline # rest) = csv_scan Plain [] [] (vs # rows) rest"
      and "\<And>l vs rows. (l, vs) \<in> set lvs \<Longrightarrow>
             csv_scan Plain [] [] rows l = Some (rev (vs # rows))"
      and "lvs \<noteq> []"
  shows "csv_scan Plain [] [] rows (join [newline] (map fst lvs)) = Some (rev rows @ map snd lvs)"
  using assms
proof (induction lvs arbitrary: rows)
  case Nil
  then show ?case by simp
next
  case (Cons p ps)
  obtain l vs where p: "p = (l, vs)" by (cases p)
  show ?case
  proof (cases ps)
    case Nil
    then show ?thesis using Cons.prems(2)[of l vs rows] p by simp
  next
    case (Cons q qs)
    have "csv_scan Plain [] [] rows (join [newline] (map fst (p # ps)))
            = csv_scan Plain [] [] rows (l @ newline # join [newline] (map fst ps))"
      using Cons p by simp
    also have "\<dots> = csv_scan Plain [] [] (vs # rows) (join [newline] (map fst ps))"
      using Cons.prems(1)[of l vs] p by simp
    also have "\<dots> = Some (rev (vs # rows) @ map snd ps)"
    proof (rule Cons.IH)
      show "ps \<noteq> []" using Cons by simp
    qed (use Cons.prems in auto)
    finally show ?thesis using p by simp
  qed
qed

text \<open>
  When the free text of every row holds no delimiter, the export reads back as the header
  row and the twelve values of every record. The failure shown below is that of a cell
  written without quotes, and of nothing else.
\<close>

lemma export_roundtrip:
  assumes "\<forall>f\<in>set fs. row_safe fmt f"
  shows "csv_parse (exportToCSV fmt fs) = Some (headers # map (csv_values fmt) fs)"
proof -
  define lvs where
    "lvs = (join [comma] headers, headers) # map (\<lambda>f. (join [comma] (csv_cells fmt f), csv_values fmt f)) fs"
  have t: "exportToCSV fmt fs = join [newline] (map fst lvs)"
    by (simp add: exportToCSV_def lvs_def comp_def)
  have v: "map snd lvs = headers # map (csv_values fmt) fs"
    by (simp add: lvs_def comp_def)
  have "csv_scan Plain [] [] [] (join [newline] (map fst lvs)) = Some (rev [] @ map snd lvs)"
  proof (rule scan_lines)
    fix l vs rows rest assume "(l, vs) \<in> set lvs"
    then show "csv_scan Plain [] [] rows (l @ newline # rest) = csv_scan Plain [] [] (vs # rows) rest"
      using assms by (auto simp: lvs_def header_newline row_newline)
  next
    fix l vs rows assume "(l, vs) \<in> set lvs"
    then show "csv_scan Plain [] [] rows l = Some (rev (vs # rows))"
      using assms by (auto simp: lvs_def header_end row_end)
  next
    show "lvs \<noteq> []" by (simp add: lvs_def)
  qed
  then show ?thesis by (simp add: csv_parse_def t v)
qed

text \<open>
  Claim C7. The export is to be one header line and one line for each record, every
  field quoted and the double quotes of the comment doubled, so that reading it back by
  the usual rules gives every field its value. The code quotes and escapes the comment
  only; the name, the cpf, the telephone and the instagram handle, free text of the same
  form, are written as they are. For a record whose name is \<^verbatim>\<open>Silva, Ana\<close> the first
  cell is the bare name, and the row reads back as thirteen fields, the name split in
  two, where the record has twelve values.
\<close>

theorem export_unquoted_name:
  "csv_parse (exportToCSV sample_date
       [(uniform ''a'' ''2024-01-01T10:00:00Z'' ''111'' 5)\<lparr>nome := ''Silva, Ana''\<rparr>])
     = Some [headers,
             [''Silva'', '' Ana'', ''111'', ''11999990000'', ''ana'', ''01/01/2024'',
              ''5'', ''5'', ''5'', ''5'', ''5'', ''5'', []]] \<and>
   csv_values sample_date ((uniform ''a'' ''2024-01-01T10:00:00Z'' ''111'' 5)\<lparr>nome := ''Silva, Ana''\<rparr>)
     = [''Silva, Ana'', ''111'', ''11999990000'', ''ana'', ''01/01/2024'',
        ''5'', ''5'', ''5'', ''5'', ''5'', ''5'', []] \<and>
   hd (csv_cells sample_date ((uniform ''a'' ''2024-01-01T10:00:00Z'' ''111'' 5)\<lparr>nome := ''Silva, Ana''\<rparr>))
     = ''Silva, Ana'' \<and>
   \<not> row_safe sample_date ((uniform ''a'' ''2024-01-01T10:00:00Z'' ''111'' 5)\<lparr>nome := ''Silva, Ana''\<rparr>)"
  by (simp add: csv_parse_def exportToCSV_def csv_cells_def csv_values_def headers_def uniform_def
        sample_date_def String_int_def comma_def newline_def dquote_def row_safe_def)

section \<open>Insert notifications\<close>

text \<open>
  Claim C8, as the code has it. The handler puts the record of every insert notification
  in front of the list, whether or not the list holds that record or its id: the list
  grows by one, the record occurs once more than before, and a notification delivered
  twice leaves a state other than the one it leaves when delivered once.
\<close>

theorem insert_prepends:
  "length (onInsert r prev) = Suc (length prev) \<and>
   length (filter (\<lambda>f. id_fb f = id_fb r) (onInsert r prev))
     = Suc (length (filter (\<lambda>f. id_fb f = id_fb r) prev)) \<and>
   count_list (onInsert r prev) r = Suc (count_list prev r) \<and>
   onInsert r (onInsert r prev) = r # r # prev \<and>
   onInsert r (onInsert r prev) \<noteq> onInsert r prev"
  by (simp add: onInsert_def)

text \<open>
  As stated, C8 fails: a notification for a record that the list holds, with the same
  fields, leaves the list with two copies of it.
\<close>

theorem duplicate_insert_counterexample:
  "onInsert (uniform ''a'' ''2024-01-01T10:00:00Z'' ''111'' 5) [uniform ''a'' ''2024-01-01T10:00:00Z'' ''111'' 5]
     = [uniform ''a'' ''2024-01-01T10:00:00Z'' ''111'' 5, uniform ''a'' ''2024-01-01T10:00:00Z'' ''111'' 5] \<and>
   onInsert (uniform ''a'' ''2024-01-01T10:00:00Z'' ''111'' 5) [uniform ''a'' ''2024-01-01T10:00:00Z'' ''111'' 5]
     \<noteq> [uniform ''a'' ''2024-01-01T10:00:00Z'' ''111'' 5] \<and>
   length (onInsert (uniform ''a'' ''2024-01-01T10:00:00Z'' ''111'' 5)
             [uniform ''a'' ''2024-01-01T10:00:00Z'' ''111'' 5]) = 2"
  by (simp add: onInsert_def)

section \<open>The validation of the form\<close>

text \<open>
  What the validation tests, and what the inputs of the form can set the ratings to.
\<close>

lemma validateForm_iff:
  "validateForm c r \<longleftrightarrow> required_fields c \<and> all_ratings (\<lambda>x. x \<noteq> 0) r"
  by (simp add: validateForm_def required_fields_def all_ratings_def ratingCriteria_def Let_def)

lemma form_state_ratings:
  "form_state c r \<Longrightarrow> all_ratings (\<lambda>x. 0 \<le> x \<and> x \<le> 5) r"
proof (induction rule: form_state.induct)
  case initial
  show ?case by (simp add: all_ratings_def initial_ratings_def)
next
  case (customer_input c r field v)
  then show ?case by simp
next
  case (star_click c r star key)
  have "0 \<le> star \<and> star \<le> 5"
    using star_click.hyps(2) by (auto simp: StarRating_stars_def)
  with star_click.IH show ?case
    by (cases key) (simp_all add: all_ratings_def)
next
  case (comment_input c r v)
  then show ?case by (simp add: all_ratings_def handleCommentChange_def)
qed

lemma rated_iff:
  assumes "all_ratings (\<lambda>x. 0 \<le> x \<and> x \<le> 5) r"
  shows "all_ratings (\<lambda>x. x \<noteq> 0) r \<longleftrightarrow> all_ratings (\<lambda>x. 1 \<le> x \<and> x \<le> 5) r"
  using assms unfolding all_ratings_def by linarith

lemma handleSubmit_Some:
  assumes "handleSubmit new_id now c r = Some row"
  shows "validateForm c r"
    and "nome row = name c" and "cpf row = cpf_c c" and "telefone row = phone c"
    and "instagram row = instagram_c c"
    and "valid_scores row \<longleftrightarrow> all_ratings (\<lambda>x. 1 \<le> x \<and> x \<le> 5) r"
proof -
  show v: "validateForm c r"
    using assms by (simp add: handleSubmit_def split: if_splits)
  then have row: "row = \<lparr> id_fb = new_id, created_at = now,
                  nome = name c, cpf = cpf_c c, telefone = phone c, instagram = instagram_c c,
                  qualidade_comida = foodQuality r, atendimento = service r,
                  tempo_espera = waitTime r, higiene_limpeza = cleanliness r,
                  custo_beneficio = valueForMoney r, ambiente_conforto = ambiance r,
                  comentario = (if comment r = [] then None else Some (comment r)) \<rparr>"
    using assms by (simp add: handleSubmit_def)
  show "nome row = name c" "cpf row = cpf_c c" "telefone row = phone c" "instagram row = instagram_c c"
    by (simp_all add: row)
  show "valid_scores row \<longleftrightarrow> all_ratings (\<lambda>x. 1 \<le> x \<and> x \<le> 5) r"
    by (simp add: row valid_scores_def all_ratings_def)
qed

lemma form_state_filled: "form_state filled_customer (all_rated 4)"
proof -
  have c: "filled_customer =
      handleCustomerChange (handleCustomerChange (handleCustomerChange (handleCustomerChange
        initial_customer Name ''Ana'') Cpf ''111'') Phone ''11999990000'') Instagram ''ana''"
    by (simp add: filled_customer_def initial_customer_def)
  have r: "all_rated 4 =
      handleRatingChange (handleRatingChange (handleRatingChange (handleRatingChange
        (handleRatingChange (handleRatingChange initial_ratings FoodQuality 4) Service 4)
          WaitTime 4) Cleanliness 4) ValueForMoney 4) Ambiance 4"
    by (simp add: all_rated_def initial_ratings_def)
  have s: "(4::int) \<in> set StarRating_stars" by (simp add: StarRating_stars_def)
  show ?thesis
    unfolding c r
    by (intro form_state.star_click form_state.customer_input form_state.initial s)
qed

text \<open>
  Claim C9. In every state of the form, where a rating is 0 (not rated) or the number
  1..5 of a star, the validation passes exactly when the four customer fields are not
  empty and the six ratings are in 1..5; nothing is sent to the table when it fails, and
  a row that the form sends has six scores in 1..5 and four fields that are not empty.
  The test that the validation makes of a rating is that it is not 0.
\<close>

theorem validation_rejects:
  "(validateForm c r \<longleftrightarrow> required_fields c \<and> all_ratings (\<lambda>x. x \<noteq> 0) r) \<and>
   (form_state c r \<longrightarrow>
      (validateForm c r \<longleftrightarrow> required_fields c \<and> all_ratings (\<lambda>x. 1 \<le> x \<and> x \<le> 5) r)) \<and>
   (handleSubmit new_id now c r = None \<longleftrightarrow> \<not> validateForm c r) \<and>
   (form_state c r \<and> handleSubmit new_id now c r = Some row \<longrightarrow>
      valid_scores row \<and> nome row \<noteq> [] \<and> cpf row \<noteq> [] \<and> telefone row \<noteq> [] \<and> instagram row \<noteq> [])"
proof (intro conjI impI)
  show "validateForm c r \<longleftrightarrow> required_fields c \<and> all_ratings (\<lambda>x. x \<noteq> 0) r"
    by (rule validateForm_iff)
  show "validateForm c r \<longleftrightarrow> required_fields c \<and> all_ratings (\<lambda>x. 1 \<le> x \<and> x \<le> 5) r"
    if "form_state c r"
    using rated_iff[OF form_state_ratings[OF that]] by (simp only: validateForm_iff)
  show "handleSubmit new_id now c r = None \<longleftrightarrow> \<not> validateForm c r"
    by (simp add: handleSubmit_def)
  assume a: "form_state c r \<and> handleSubmit new_id now c r = Some row"
  then have fs: "form_state c r" and hs: "handleSubmit new_id now c r = Some row" by simp_all
  have v: "validateForm c r" using hs by (rule handleSubmit_Some(1))
  then have "required_fields c" and "all_ratings (\<lambda>x. 1 \<le> x \<and> x \<le> 5) r"
    using rated_iff[OF form_state_ratings[OF fs]] by (simp_all only: validateForm_iff)
  then show "valid_scores row" "nome row \<noteq> []" "cpf row \<noteq> []" "telefone row \<noteq> []"
    "instagram row \<noteq> []"
    using handleSubmit_Some(2-6)[OF hs] by (simp_all add: required_fields_def)
qed

text \<open>
  A filled-in form with four stars for each criterion is a state of the form, passes the
  validation and sends a valid row.
\<close>

theorem validation_rejects_witness:
  "form_state filled_customer (all_rated 4) \<and>
   validateForm filled_customer (all_rated 4) \<and>
   handleSubmit ''id1'' ''2024-01-01T10:00:00Z'' filled_customer (all_rated 4)
     = Some (uniform ''id1'' ''2024-01-01T10:00:00Z'' ''111'' 4) \<and>
   valid_scores (uniform ''id1'' ''2024-01-01T10:00:00Z'' ''111'' 4)"
  using validation_rejects [of filled_customer "all_rated 4" "''id1''" "''2024-01-01T10:00:00Z''"
          "uniform ''id1'' ''2024-01-01T10:00:00Z'' ''111'' 4"]
    form_state_filled
  by (simp add: required_fields_def all_ratings_def filled_customer_def all_rated_def
        handleSubmit_def uniform_def valid_scores_def)

end
